theory Spec2Isabelle
  imports Main
begin

section \<open>JavaScript values used by the library\<close>

text \<open>
  Strings are lists of characters, each read as one code unit in the range
  U+0000..U+00FF. The numbers stored in a configuration (account ids, timeouts) are
  integers. A number computed from a string by \<open>parseInt\<close> is a double: it is
  rounded from \<open>2^53\<close> up and can be infinite. An optional property
  (\<open>field?: T\<close>) is a \<open>T option\<close>, \<open>None\<close> standing for \<open>undefined\<close>
  (and for \<open>null\<close> where the source returns it).
\<close>

text \<open>
  What a call can throw: the errors of the library's own helpers, a \<open>TypeError\<close> of
  the language, and an error raised by a filesystem or network call.
\<close>

datatype error =
    ErrorWithMessage string
  | FileSystemError string
  | TypeError
  | IOError string

text \<open>
  Modelled from the spec: errors/standardErrors.ts and errors/fileSystemErrors.ts are
  not among the sources. The spec describes them as error wrapping, and their callers
  rely on them never returning, so each call throws an error built from its arguments:
  the message key, or the path in the context.
\<close>

definition throwErrorWithMessage :: "string \<Rightarrow> error" where
  "throwErrorWithMessage key = ErrorWithMessage key"

definition throwFileSystemError :: "error \<Rightarrow> string \<Rightarrow> error" where
  "throwFileSystemError err filepath = FileSystemError filepath"

text \<open>Truthiness: a string is truthy unless empty, a number unless zero.\<close>

definition truthy_str :: "string option \<Rightarrow> bool" where
  "truthy_str v = (case v of None \<Rightarrow> False | Some s \<Rightarrow> s \<noteq> [])"

definition truthy_num :: "int option \<Rightarrow> bool" where
  "truthy_num v = (case v of None \<Rightarrow> False | Some n \<Rightarrow> n \<noteq> 0)"

text \<open>The regular-expression classes \<open>\d\<close> and \<open>\s\<close> on this range of code units.\<close>

definition is_digit :: "char \<Rightarrow> bool" where
  "is_digit c = (48 \<le> (of_char c :: nat) \<and> (of_char c :: nat) \<le> 57)"

definition is_whitespace :: "char \<Rightarrow> bool" where
  "is_whitespace c = ((of_char c :: nat) \<in> {9, 10, 11, 12, 13, 32, 160})"

text \<open>\<open>/^\d+$/.test(s)\<close>\<close>

definition all_digits :: "string \<Rightarrow> bool" where
  "all_digits s = (s \<noteq> [] \<and> list_all is_digit s)"

text \<open>\<open>/\s+/.test(s)\<close>\<close>

definition contains_whitespace :: "string \<Rightarrow> bool" where
  "contains_whitespace s = list_ex is_whitespace s"

text \<open>
  \<open>parseInt(s, 10)\<close> on a string of decimal digits. The digits denote
  \<open>decimal_value s\<close>; the result is the double nearest to it, ties going to the even
  significand, and \<open>Infinity\<close> from \<open>2^1024\<close> on. \<open>double_exponent n\<close> is the
  number of low bits a 53-bit significand cannot hold, so \<open>to_double\<close> is the
  identity below \<open>2^53\<close>.
\<close>

definition decimal_value :: "string \<Rightarrow> nat" where
  "decimal_value s = foldl (\<lambda>acc c. acc * 10 + (of_char c - 48)) 0 s"

function double_exponent :: "nat \<Rightarrow> nat" where
  "double_exponent n = (if n < 2 ^ 53 then 0 else Suc (double_exponent (n div 2)))"
  by pat_completeness auto
termination
  by (relation "measure id") auto

declare double_exponent.simps [simp del]

definition to_double :: "nat \<Rightarrow> nat" where
  "to_double n =
     (let e = double_exponent n; q = n div 2 ^ e; r = n mod 2 ^ e
      in if 2 * r > 2 ^ e \<or> (2 * r = 2 ^ e \<and> odd q) then (q + 1) * 2 ^ e else q * 2 ^ e)"

datatype jsnumber = Finite int | Infinity

definition parseInt :: "string \<Rightarrow> jsnumber" where
  "parseInt s =
     (let v = to_double (decimal_value s)
      in if v \<ge> 2 ^ 1024 then Infinity else Finite (int v))"

text \<open>
  Truthiness of such a number, and \<open>x === v\<close> for a number \<open>x\<close> and a stored
  \<open>accountId\<close>.
\<close>

definition truthy_number :: "jsnumber option \<Rightarrow> bool" where
  "truthy_number v =
     (case v of None \<Rightarrow> False | Some (Finite n) \<Rightarrow> n \<noteq> 0 | Some Infinity \<Rightarrow> True)"

definition same_number :: "jsnumber \<Rightarrow> int option \<Rightarrow> bool" where
  "same_number x v = (case x of Finite n \<Rightarrow> v = Some n | Infinity \<Rightarrow> False)"

text \<open>\<open>String.prototype.toLowerCase\<close> on this range of code units.\<close>

definition toLowerCase_char :: "char \<Rightarrow> char" where
  "toLowerCase_char c =
     (let n = (of_char c :: nat)
      in if (65 \<le> n \<and> n \<le> 90) \<or> (192 \<le> n \<and> n \<le> 222 \<and> n \<noteq> 215)
         then char_of (n + 32) else c)"

definition toLowerCase :: "string \<Rightarrow> string" where
  "toLowerCase s = map toLowerCase_char s"

section \<open>Accounts and configuration (types/Accounts, types/Config)\<close>

datatype tokenInfo = TokenInfo "(string \<times> string) list"

text \<open>\<open>OAuthAccount['auth']\<close>\<close>

record auth_fields =
  auth_clientId :: "string option"
  auth_clientSecret :: "string option"
  auth_scopes :: "string list option"
  auth_tokenInfo :: "tokenInfo option"

text \<open>
  \<open>FlatAccountFields\<close>: the shape of an update record and, with the flat OAuth fields
  normally absent, of a stored account.
\<close>

record account =
  accountId :: "int option"
  apiKey :: "string option"
  authType :: "string option"
  clientId :: "string option"
  clientSecret :: "string option"
  defaultMode :: "string option"
  env :: "string option"
  name :: "string option"
  parentAccountId :: "int option"
  personalAccessKey :: "string option"
  sandboxAccountType :: "string option"
  scopes :: "string list option"
  tokenInfo :: "tokenInfo option"
  auth :: "auth_fields option"

text \<open>The object \<open>{}\<close>: every property undefined.\<close>

definition empty_account :: account where
  "empty_account =
     \<lparr>accountId = None, apiKey = None, authType = None, clientId = None,
      clientSecret = None, defaultMode = None, env = None, name = None,
      parentAccountId = None, personalAccessKey = None, sandboxAccountType = None,
      scopes = None, tokenInfo = None, auth = None\<rparr>"

definition empty_auth :: auth_fields where
  "empty_auth =
     \<lparr>auth_clientId = None, auth_clientSecret = None, auth_scopes = None,
      auth_tokenInfo = None\<rparr>"

text \<open>\<open>string | number\<close>\<close>

datatype nameOrId = Num int | Str string

definition truthy :: "nameOrId option \<Rightarrow> bool" where
  "truthy v = (case v of None \<Rightarrow> False | Some (Num n) \<Rightarrow> n \<noteq> 0 | Some (Str s) \<Rightarrow> s \<noteq> [])"

record CLIConfig =
  accounts :: "account list"
  defaultAccount :: "nameOrId option"
  config_defaultMode :: "string option"
  config_env :: "string option"
  httpTimeout :: "int option"
  httpUseLocalhost :: "bool option"
  allowUsageTracking :: "bool option"

record CLIOptions =
  useEnv :: "bool option"

text \<open>The fields of the \<open>CLIConfiguration\<close> singleton.\<close>

record CLIConfiguration =
  options :: CLIOptions
  useEnvConfig :: bool
  config :: "CLIConfig option"

text \<open>The constructor.\<close>

definition new_CLIConfiguration :: CLIConfiguration where
  "new_CLIConfiguration = \<lparr>options = \<lparr>useEnv = None\<rparr>, useEnvConfig = False, config = None\<rparr>"

section \<open>CLIConfiguration: lookups\<close>

definition getDefaultAccount :: "CLIConfig option \<Rightarrow> nameOrId option" where
  "getDefaultAccount c =
     (case c of
        None \<Rightarrow> None
      | Some cfg \<Rightarrow> if truthy (defaultAccount cfg) then defaultAccount cfg else None)"

text \<open>
  \<open>getAccount\<close>: the two locals \<open>name\<close> and \<open>accountId\<close> start as \<open>null\<close>; exactly one
  of them is assigned, and each is used only when truthy.
\<close>

definition getAccount :: "CLIConfig option \<Rightarrow> nameOrId option \<Rightarrow> account option" where
  "getAccount c nameOrId =
     (case c of
        None \<Rightarrow> None
      | Some cfg \<Rightarrow>
          (let nameOrIdToCheck = (if truthy nameOrId then nameOrId else getDefaultAccount c)
           in if \<not> truthy nameOrIdToCheck then None
              else
                (let (nm, aid) =
                       (case nameOrIdToCheck of
                          Some (Num n) \<Rightarrow> (None, Some (Finite n))
                        | Some (Str s) \<Rightarrow>
                            if all_digits s then (None, Some (parseInt s))
                            else (Some s, None)
                        | None \<Rightarrow> (None, None))
                 in if truthy_str nm then find (\<lambda>a. name a = nm) (accounts cfg)
                    else if truthy_number aid then
                      find (\<lambda>a. same_number (the aid) (accountId a)) (accounts cfg)
                    else None)))"

definition getAccountId :: "CLIConfig option \<Rightarrow> nameOrId option \<Rightarrow> int option" where
  "getAccountId c nameOrId =
     (case getAccount c nameOrId of None \<Rightarrow> None | Some a \<Rightarrow> accountId a)"

text \<open>\<open>findIndex\<close>: \<open>None\<close> stands for the result \<open>-1\<close>.\<close>

fun findIndex :: "('a \<Rightarrow> bool) \<Rightarrow> 'a list \<Rightarrow> nat option" where
  "findIndex p [] = None"
| "findIndex p (x # xs) =
     (if p x then Some 0 else map_option Suc (findIndex p xs))"

definition getConfigAccountIndex :: "CLIConfig option \<Rightarrow> int \<Rightarrow> nat option" where
  "getConfigAccountIndex c aid =
     (case c of
        None \<Rightarrow> None
      | Some cfg \<Rightarrow> findIndex (\<lambda>a. accountId a = Some aid) (accounts cfg))"

section \<open>CLIConfiguration: loading and persisting\<close>

text \<open>
  The modules \<open>./configFile\<close> and \<open>./environment\<close> are not among the sources. Their
  functions are parameters of the model: \<open>'w\<close> is the state of the world outside the
  process (the configuration file, the environment variables), reading functions
  inspect it, writing functions return the new one, and the functions that touch the
  file may throw.
\<close>

record 'w configFile =
  loadConfigFromEnvironment :: "'w \<Rightarrow> CLIConfig option"
  loadConfigFromFile :: "'w \<Rightarrow> error + CLIConfig option"
  writeConfigToFile :: "CLIConfig \<Rightarrow> 'w \<Rightarrow> error + 'w"
  configFileExists :: "'w \<Rightarrow> bool"
  configFileIsBlank :: "'w \<Rightarrow> bool"
  deleteConfigFile :: "'w \<Rightarrow> error + 'w"

text \<open>The object literal \<open>{ accounts: [] }\<close>.\<close>

definition empty_config :: CLIConfig where
  "empty_config =
     \<lparr>accounts = [], defaultAccount = None, config_defaultMode = None, config_env = None,
      httpTimeout = None, httpUseLocalhost = None, allowUsageTracking = None\<rparr>"

text \<open>
  \<open>load\<close> returns the value of \<open>this.config\<close> together with the updated object. In
  the environment branch the argument of \<open>debug\<close> reads \<open>accounts[0].accountId\<close>, a
  \<open>TypeError\<close> on an empty list. A throw leaves no result; the fields at that moment
  are not tracked.
\<close>

definition load ::
  "'w configFile \<Rightarrow> CLIConfiguration \<Rightarrow> 'w \<Rightarrow> error + (CLIConfig option \<times> CLIConfiguration)"
where
  "load api s w =
     (if useEnv (options s) = Some True then
        (case loadConfigFromEnvironment api w of
           None \<Rightarrow> Inr (config s, s)
         | Some configFromEnv \<Rightarrow>
             (case accounts configFromEnv of
                [] \<Rightarrow> Inl TypeError
              | _ # _ \<Rightarrow>
                  (let s1 = s\<lparr>useEnvConfig := True\<rparr>;
                       s2 = s1\<lparr>config := Some configFromEnv\<rparr>
                   in Inr (config s2, s2))))
      else
        (case loadConfigFromFile api w of
           Inl e \<Rightarrow> Inl e
         | Inr configFromFile \<Rightarrow>
             (let s1 = (if configFromFile = None then s\<lparr>config := Some empty_config\<rparr> else s);
                  s2 = s1\<lparr>useEnvConfig := False\<rparr>;
                  s3 = s2\<lparr>config := configFromFile\<rparr>
              in Inr (config s3, s3))))"

definition init ::
  "'w configFile \<Rightarrow> CLIOptions \<Rightarrow> CLIConfiguration \<Rightarrow> 'w \<Rightarrow> error + CLIConfiguration"
where
  "init api opts s w =
     (case load api (s\<lparr>options := opts\<rparr>) w of
        Inl e \<Rightarrow> Inl e
      | Inr (_, s') \<Rightarrow> Inr s')"

text \<open>\<open>Object.keys(config).length\<close>: \<open>accounts\<close> and every other property present.\<close>

definition config_keys :: "CLIConfig \<Rightarrow> nat" where
  "config_keys c =
     1 + (if defaultAccount c = None then 0 else 1)
       + (if config_defaultMode c = None then 0 else 1)
       + (if config_env c = None then 0 else 1)
       + (if httpTimeout c = None then 0 else 1)
       + (if httpUseLocalhost c = None then 0 else 1)
       + (if allowUsageTracking c = None then 0 else 1)"

definition configIsEmpty ::
  "'w configFile \<Rightarrow> CLIConfiguration \<Rightarrow> 'w \<Rightarrow> error + (bool \<times> CLIConfiguration)"
where
  "configIsEmpty api s w =
     (if \<not> configFileExists api w \<or> configFileIsBlank api w then Inr (True, s)
      else
        (case load api s w of
           Inl e \<Rightarrow> Inl e
         | Inr (_, s') \<Rightarrow>
             (case config s' of
                Some c \<Rightarrow> if config_keys c = 1 then Inr (True, s') else Inr (False, s')
              | None \<Rightarrow> Inr (False, s'))))"

text \<open>\<open>delete\<close>: the conjunction short-circuits, so \<open>configIsEmpty\<close> runs only when
  \<open>useEnvConfig\<close> is false.\<close>

definition delete ::
  "'w configFile \<Rightarrow> CLIConfiguration \<Rightarrow> 'w \<Rightarrow> error + (CLIConfiguration \<times> 'w)"
where
  "delete api s w =
     (if \<not> useEnvConfig s then
        (case configIsEmpty api s w of
           Inl e \<Rightarrow> Inl e
         | Inr (isEmpty, s') \<Rightarrow>
             if isEmpty then
               (case deleteConfigFile api w of
                  Inl e \<Rightarrow> Inl e
                | Inr w' \<Rightarrow> Inr (s'\<lparr>config := None\<rparr>, w'))
             else Inr (s', w))
      else Inr (s, w))"

text \<open>\<open>write\<close> (the name is an Isar keyword, hence the suffix).\<close>

definition write_config ::
  "'w configFile \<Rightarrow> CLIConfig option \<Rightarrow> CLIConfiguration \<Rightarrow> 'w
     \<Rightarrow> error + (CLIConfig option \<times> CLIConfiguration \<times> 'w)"
where
  "write_config api updatedConfig s w =
     (if \<not> useEnvConfig s then
        (let s1 = (case updatedConfig of Some u \<Rightarrow> s\<lparr>config := Some u\<rparr> | None \<Rightarrow> s)
         in case config s1 of
              Some c \<Rightarrow>
                (case writeConfigToFile api c w of
                   Inl e \<Rightarrow> Inl e
                 | Inr w' \<Rightarrow> Inr (config s1, s1, w'))
            | None \<Rightarrow> Inr (config s1, s1, w))
      else Inr (config s, s, w))"

text \<open>\<open>getAndLoadConfigIfNeeded\<close> returns \<open>this.config!\<close>, which may still be null.\<close>

definition getAndLoadConfigIfNeeded ::
  "'w configFile \<Rightarrow> CLIOptions option \<Rightarrow> CLIConfiguration \<Rightarrow> 'w
     \<Rightarrow> error + (CLIConfig option \<times> CLIConfiguration)"
where
  "getAndLoadConfigIfNeeded api opts s w =
     (if config s = None then
        (case init api (case opts of Some ops \<Rightarrow> ops | None \<Rightarrow> \<lparr>useEnv = None\<rparr>) s w of
           Inl e \<Rightarrow> Inl e
         | Inr s' \<Rightarrow> Inr (config s', s'))
      else Inr (config s, s))"

section \<open>CLIConfiguration.updateAccount\<close>

text \<open>
  \<open>getValidEnv\<close> (called with \<open>false\<close> as its second argument), the constant
  \<open>API_KEY_AUTH_METHOD.value\<close> and the table \<open>DEFAULT_MODES\<close> are defined outside the
  sources and are parameters.
\<close>

record account_consts =
  getValidEnv :: "string option \<Rightarrow> string option"
  API_KEY_AUTH_METHOD_value :: string
  DEFAULT_MODES :: "string \<Rightarrow> string option"

text \<open>
  \<open>safelyApplyUpdates(fieldName, newValue)\<close>: the field is given by its update
  function; the assignment happens unless \<open>newValue\<close> is \<open>undefined\<close>.
\<close>

definition safelyApplyUpdates ::
  "(('a option \<Rightarrow> 'a option) \<Rightarrow> account \<Rightarrow> account) \<Rightarrow> 'a option \<Rightarrow> account \<Rightarrow> account"
where
  "safelyApplyUpdates fieldName newValue nextAccountConfig =
     (if newValue \<noteq> None then fieldName (\<lambda>_. newValue) nextAccountConfig
      else nextAccountConfig)"

text \<open>Lines 297 to 306: the nested \<open>auth\<close> object.\<close>

definition next_auth :: "account \<Rightarrow> account option \<Rightarrow> auth_fields option" where
  "next_auth u currentAccountConfig =
     (if truthy_str (clientId u) \<or> truthy_str (clientSecret u) \<or> scopes u \<noteq> None
          \<or> tokenInfo u \<noteq> None
      then Some ((case currentAccountConfig of
                    Some cur \<Rightarrow> (case auth cur of Some a \<Rightarrow> a | None \<Rightarrow> empty_auth)
                  | None \<Rightarrow> empty_auth)
                 \<lparr>auth_clientId := clientId u, auth_clientSecret := clientSecret u,
                  auth_scopes := scopes u, auth_tokenInfo := tokenInfo u\<rparr>)
      else None)"

text \<open>Lines 308 to 353: the merged account record.\<close>

definition completedAccountConfig ::
  "account_consts \<Rightarrow> account \<Rightarrow> account option \<Rightarrow> account"
where
  "completedAccountConfig k u currentAccountConfig =
     (let n0 = (case currentAccountConfig of Some cur \<Rightarrow> cur | None \<Rightarrow> empty_account);
          updatedEnv =
            getValidEnv k
              (if truthy_str (env u) then env u
               else (case currentAccountConfig of Some cur \<Rightarrow> env cur | None \<Rightarrow> None));
          updatedDefaultMode =
            (if truthy_str (defaultMode u) then map_option toLowerCase (defaultMode u)
             else defaultMode u);
          n1 = safelyApplyUpdates name_update (name u) n0;
          n2 = safelyApplyUpdates env_update updatedEnv n1;
          n3 = safelyApplyUpdates accountId_update (accountId u) n2;
          n4 = safelyApplyUpdates authType_update (authType u) n3;
          n5 = safelyApplyUpdates auth_update (next_auth u currentAccountConfig) n4;
          n6 = (if authType n5 = Some (API_KEY_AUTH_METHOD_value k)
                then safelyApplyUpdates apiKey_update (apiKey u) n5 else n5);
          n7 = (case updatedDefaultMode of
                  Some m \<Rightarrow> safelyApplyUpdates defaultMode_update (DEFAULT_MODES k m) n6
                | None \<Rightarrow> n6);
          n8 = safelyApplyUpdates personalAccessKey_update (personalAccessKey u) n7;
          n9 = safelyApplyUpdates sandboxAccountType_update (sandboxAccountType u) n8
      in safelyApplyUpdates parentAccountId_update (parentAccountId u) n9)"


text \<open>
  \<open>updateAccount(updatedAccountFields, writeUpdate)\<close>. When the account exists the
  source assigns the merged record at its index and then, in the same branch, pushes
  it onto the list. An index of \<open>-1\<close> would set a property outside the elements.
\<close>

definition updateAccount ::
  "'w configFile \<Rightarrow> account_consts \<Rightarrow> account \<Rightarrow> bool \<Rightarrow> CLIConfiguration \<Rightarrow> 'w
     \<Rightarrow> error + (account option \<times> CLIConfiguration \<times> 'w)"
where
  "updateAccount api k u writeUpdate s w =
     (if \<not> truthy_num (accountId u) then 
        Inl (throwErrorWithMessage ''config.cliConfiguration.updateAccount'')
      else
        (case config s of
           None \<Rightarrow> Inr (None, s, w)
         | Some cfg \<Rightarrow>
             (let currentAccountConfig = getAccount (config s) (map_option Num (accountId u));
                  completed = completedAccountConfig k u currentAccountConfig;
                  s1 = (if currentAccountConfig \<noteq> None then
                          (let index = getConfigAccountIndex (config s) (the (accountId u));
                               accs1 = (case index of
                                          Some i \<Rightarrow> (accounts cfg)[i := completed]
                                        | None \<Rightarrow> accounts cfg);
                               accs2 = accs1 @ [completed]
                           in s\<lparr>config := Some (cfg\<lparr>accounts := accs2\<rparr>)\<rparr>)
                        else s)
              in if writeUpdate then
                   (case write_config api None s1 w of
                      Inl e \<Rightarrow> Inl e
                    | Inr (_, s2, w') \<Rightarrow> Inr (Some completed, s2, w'))
                 else Inr (Some completed, s1, w))))"

section \<open>CLIConfiguration.validate\<close>

text \<open>
  \<open>validate\<close> checks at run time what the type \<open>CLIConfig\<close> promises, so it is
  modelled on the value as loaded: \<open>accounts\<close> may not be an array, and an entry may be
  null (\<open>None\<close>). The argument is \<open>this.config\<close> seen through its \<open>accounts\<close>
  property, \<open>None\<close> for a null config.
\<close>

datatype accounts_value = NotAnArray | AccountsArray "account option list"

text \<open>
  \<open>accountIdsMap\<close> and \<open>accountNamesMap\<close> are object literals \<open>{}\<close>, so a property
  read also sees what \<open>Object.prototype\<close> provides, each of these a truthy value. The
  own keys are kept as a list. The keys of \<open>accountIdsMap\<close> are numbers written in
  decimal, which \<open>Object.prototype\<close> does not have.
\<close>

definition Object_prototype_keys :: "string list" where
  "Object_prototype_keys =
     [''constructor'', ''hasOwnProperty'', ''isPrototypeOf'', ''propertyIsEnumerable'',
      ''toLocaleString'', ''toString'', ''valueOf'', ''__proto__'',
      ''__defineGetter__'', ''__defineSetter__'', ''__lookupGetter__'',
      ''__lookupSetter__'']"

definition accountNamesMap_get :: "string list \<Rightarrow> string \<Rightarrow> bool" where
  "accountNamesMap_get own k = (k \<in> set own \<or> k \<in> set Object_prototype_keys)"

definition accountIdsMap_get :: "int list \<Rightarrow> int \<Rightarrow> bool" where
  "accountIdsMap_get own k = (k \<in> set own)"

text \<open>The callback of \<open>every\<close>, which stops at the first entry that returns false.\<close>

fun validate_every :: "int list \<Rightarrow> string list \<Rightarrow> account option list \<Rightarrow> bool" where
  "validate_every accountIdsMap accountNamesMap [] = True"
| "validate_every accountIdsMap accountNamesMap (None # rest) = False"
| "validate_every accountIdsMap accountNamesMap (Some accountConfig # rest) =
     (case accountId accountConfig of
        None \<Rightarrow> False
      | Some aid \<Rightarrow>
          if aid = 0 then False
          else if accountIdsMap_get accountIdsMap aid then False
          else if truthy_str (name accountConfig) then
            (let nm = the (name accountConfig)
             in if accountNamesMap_get accountNamesMap nm then False
                else if contains_whitespace nm then False
                else validate_every (aid # accountIdsMap) (nm # accountNamesMap) rest)
          else validate_every (aid # accountIdsMap) accountNamesMap rest)"

definition validate :: "accounts_value option \<Rightarrow> bool" where
  "validate c =
     (case c of
        None \<Rightarrow> False
      | Some NotAnArray \<Rightarrow> False
      | Some (AccountsArray xs) \<Rightarrow> validate_every [] [] xs)"

text \<open>
  The specification of \<open>validate\<close> in its own words: every entry is non-empty, has a
  truthy accountId distinct from every earlier entry's, and, when it has a name, the
  name is distinct from every earlier entry's name and has no whitespace.
\<close>

definition spec_entry_ok :: "account option list \<Rightarrow> account option \<Rightarrow> bool" where
  "spec_entry_ok earlier e =
     (case e of
        None \<Rightarrow> False
      | Some a \<Rightarrow>
          truthy_num (accountId a)
          \<and> list_all (\<lambda>b. case b of None \<Rightarrow> True | Some b' \<Rightarrow> accountId b' \<noteq> accountId a) earlier
          \<and> (truthy_str (name a) \<longrightarrow>
                list_all (\<lambda>b. case b of None \<Rightarrow> True | Some b' \<Rightarrow> name b' \<noteq> name a) earlier
                \<and> \<not> contains_whitespace (the (name a))))"

fun spec_entries_ok :: "account option list \<Rightarrow> account option list \<Rightarrow> bool" where
  "spec_entries_ok earlier [] = True"
| "spec_entries_ok earlier (e # rest) =
     (spec_entry_ok earlier e \<and> spec_entries_ok (earlier @ [e]) rest)"

definition validate_spec :: "accounts_value option \<Rightarrow> bool" where
  "validate_spec c =
     (case c of
        None \<Rightarrow> False
      | Some NotAnArray \<Rightarrow> False
      | Some (AccountsArray xs) \<Rightarrow> spec_entries_ok [] xs)"

text \<open>
  The account ids and the non-empty names among the entries seen so far: what the two
  maps hold as own keys when \<open>every\<close> reaches the next entry.
\<close>

definition ids_of :: "account option list \<Rightarrow> int set" where
  "ids_of es = {i. \<exists>b. Some b \<in> set es \<and> accountId b = Some i}"

definition names_of :: "account option list \<Rightarrow> string set" where
  "names_of es = {n. n \<noteq> [] \<and> (\<exists>b. Some b \<in> set es \<and> name b = Some n)}"

section \<open>HTTP: request options and API calls\<close>

text \<open>
  Object literals handed to the HTTP layer are finite maps from property names to
  values; a spread \<open>{...a, ...b}\<close> is \<open>a ++ b\<close>. A nested object is a list of
  properties.
\<close>

datatype jsval =
    JUndefined
  | JBool bool
  | JNum int
  | JStr string
  | JObj "(string \<times> jsval) list"
  | ReadStream string

type_synonym jsobj = "string \<rightharpoonup> jsval"

text \<open>
  \<open>version\<close> comes from package.json and \<open>getHubSpotApiOrigin\<close> from utils/urls;
  both are parameters.
\<close>

record http_consts =
  version :: string
  getHubSpotApiOrigin :: "string option \<Rightarrow> bool option \<Rightarrow> string"

definition DEFAULT_USER_AGENT_HEADERS :: "string \<Rightarrow> (string \<times> jsval) list" where
  "DEFAULT_USER_AGENT_HEADERS v = [(''User-Agent'', JStr (''HubSpot Local Dev Lib/'' @ v))]"

record GetRequestOptionsOptions =
  opt_env :: "string option"
  opt_localHostOverride :: "bool option"

text \<open>
  \<open>getRequestOptions(options, requestOptions)\<close>: destructuring the result of
  \<open>getAndLoadConfigIfNeeded()\<close> throws a \<open>TypeError\<close> when that is null.
\<close>

definition getRequestOptions ::
  "'w configFile \<Rightarrow> http_consts \<Rightarrow> GetRequestOptionsOptions \<Rightarrow> jsobj \<Rightarrow> CLIConfiguration \<Rightarrow> 'w
     \<Rightarrow> error + (jsobj \<times> CLIConfiguration)"
where
  "getRequestOptions api h opts requestOptions s w =
     (case getAndLoadConfigIfNeeded api None s w of
        Inl e \<Rightarrow> Inl e
      | Inr (None, s') \<Rightarrow> Inl TypeError
      | Inr (Some cfg, s') \<Rightarrow>
          Inr ([''baseUrl'' \<mapsto>
                  JStr (getHubSpotApiOrigin h (opt_env opts)
                          (if opt_localHostOverride opts = Some True then Some False
                           else httpUseLocalhost cfg)),
                ''headers'' \<mapsto> JObj (DEFAULT_USER_AGENT_HEADERS (version h)),
                ''json'' \<mapsto> JBool True,
                ''simple'' \<mapsto> JBool True,
                ''timeout'' \<mapsto>
                  JNum (if truthy_num (httpTimeout cfg) then the (httpTimeout cfg) else 15000)]
               ++ requestOptions, s'))"

text \<open>One property of the object \<open>getRequestOptions\<close> returns, when it returns.\<close>

definition request_option :: "error + (jsobj \<times> CLIConfiguration) \<Rightarrow> string \<Rightarrow> jsval option" where
  "request_option res k = (case res of Inl e \<Rightarrow> None | Inr (r, s) \<Rightarrow> r k)"

text \<open>
  A call into the HTTP layer: \<open>http.post\<close> and \<open>http.put\<close> of the library's own
  client, with the account id and the options object, or \<open>axios\<close> with its config.
\<close>

datatype http_call =
    Http_post int jsobj
  | Http_put int jsobj
  | Axios jsobj

definition HUBFILES_API_PATH :: string where
  "HUBFILES_API_PATH = ''/file-transport/v1/hubfiles''"

text \<open>api/fileTransport.ts. \<open>resolve\<close> stands for \<open>path.resolve(getCwd(), filepath)\<close>.\<close>

definition createSchemaFromHubFile :: "(string \<Rightarrow> string) \<Rightarrow> int \<Rightarrow> string \<Rightarrow> http_call" where
  "createSchemaFromHubFile resolve aid filepath =
     (let file = ReadStream (resolve filepath)
      in Http_post aid
           [''url'' \<mapsto> JStr (HUBFILES_API_PATH @ ''/object-schemas''),
            ''data'' \<mapsto> JObj [(''file'', file)],
            ''headers'' \<mapsto> JObj [(''Content-Type'', JStr ''multipart/form-data'')]])"

definition updateSchemaFromHubFile :: "(string \<Rightarrow> string) \<Rightarrow> int \<Rightarrow> string \<Rightarrow> http_call" where
  "updateSchemaFromHubFile resolve aid filepath =
     (let file = ReadStream (resolve filepath)
      in Http_put aid
           [''url'' \<mapsto> JStr (HUBFILES_API_PATH @ ''/object-schemas''),
            ''data'' \<mapsto> JObj [(''file'', file)],
            ''headers'' \<mapsto> JObj [(''Content-Type'', JStr ''multipart/form-data'')]])"

text \<open>
  api/localDevAuth.ts. \<open>getAxiosConfig\<close> (http/getAxiosConfig) and the default
  environment \<open>ENVIRONMENTS.PROD\<close> are parameters. \<open>fetchAccessToken_options\<close> is the
  object literal passed to \<open>getAxiosConfig\<close>.
\<close>

definition LOCALDEVAUTH_API_AUTH_PATH :: string where
  "LOCALDEVAUTH_API_AUTH_PATH = ''localdevauth/v1/auth''"

definition fetchAccessToken_options :: "string \<Rightarrow> string \<Rightarrow> string option \<Rightarrow> int option \<Rightarrow> jsobj" where
  "fetchAccessToken_options prodEnv personalAccessKey' env' portalId =
     (let e = (case env' of None \<Rightarrow> prodEnv | Some v \<Rightarrow> v);
          query = (if truthy_num portalId then [(''portalId'', JNum (the portalId))] else [])
      in [''env'' \<mapsto> JStr e,
          ''localHostOverride'' \<mapsto> JBool True,
          ''url'' \<mapsto> JStr (LOCALDEVAUTH_API_AUTH_PATH @ ''/refresh''),
          ''body'' \<mapsto> JObj [(''encodedOAuthRefreshToken'', JStr personalAccessKey')],
          ''params'' \<mapsto> JObj query])"

definition fetchAccessToken ::
  "(jsobj \<Rightarrow> jsobj) \<Rightarrow> string \<Rightarrow> string \<Rightarrow> string option \<Rightarrow> int option \<Rightarrow> http_call"
where
  "fetchAccessToken getAxiosConfig prodEnv personalAccessKey' env' portalId =
     (let axiosConfig = getAxiosConfig (fetchAccessToken_options prodEnv personalAccessKey' env' portalId)
      in Axios (axiosConfig ++ [''method'' \<mapsto> JStr ''post'']))"

section \<open>lib/trackUsage.ts\<close>

text \<open>
  \<open>FILE_MAPPER_API_PATH\<close>, \<open>getAccountConfig\<close>, \<open>getEnv\<close> and \<open>getAxiosConfig\<close> are
  imported from modules outside the sources and are parameters.
\<close>

record track_consts =
  FILE_MAPPER_API_PATH :: string
  getAccountConfig :: "int \<Rightarrow> account option"
  getEnv :: "int option \<Rightarrow> string"
  track_getAxiosConfig :: "jsobj \<Rightarrow> jsobj"

text \<open>
  What an \<open>async\<close> function hands back: \<open>return p\<close> with a promise makes the
  function's promise follow \<open>p\<close>; falling off the end fulfils it at once.
\<close>

datatype returned = ReturnsPromiseOfCall | ReturnsNothing

datatype outcome = Fulfilled | Rejected error

definition settles :: "returned \<Rightarrow> outcome \<Rightarrow> outcome" where
  "settles r post_outcome =
     (case r of ReturnsPromiseOfCall \<Rightarrow> post_outcome | ReturnsNothing \<Rightarrow> Fulfilled)"

text \<open>
  \<open>trackUsage\<close> gives the calls it issues and what it returns. An \<open>analyticsEndpoint\<close>
  left undefined is printed as \<open>undefined\<close> by the template literal.
\<close>

definition trackUsage ::
  "track_consts \<Rightarrow> string \<Rightarrow> string \<Rightarrow> jsval \<Rightarrow> int option \<Rightarrow> http_call list \<times> returned"
where
  "trackUsage d eventName eventClass meta aid =
     (let usageEvent =
            JObj [(''accountId'', (case aid of None \<Rightarrow> JUndefined | Some n \<Rightarrow> JNum n)),
                  (''eventName'', JStr eventName),
                  (''eventClass'', JStr eventClass),
                  (''meta'', meta)];
          analyticsEndpoint =
            (if eventName = ''cli-interaction'' then ''cms-cli-usage''
             else if eventName = ''vscode-extension-interaction'' then ''vscode-extension-usage''
             else ''undefined'');
          path = FILE_MAPPER_API_PATH d @ ''/'' @ analyticsEndpoint;
          accountConfig = (if truthy_num aid then getAccountConfig d (the aid) else None)
      in case accountConfig of
           Some a \<Rightarrow>
             if authType a = Some ''personalaccesskey'' then
               ([Http_post (the aid)
                   [''url'' \<mapsto> JStr (path @ ''/authenticated''),
                    ''data'' \<mapsto> usageEvent,
                    ''resolveWithFullResponse'' \<mapsto> JBool True]],
                ReturnsPromiseOfCall)
             else
               ([Axios (track_getAxiosConfig d
                          [''env'' \<mapsto> JStr (getEnv d aid), ''url'' \<mapsto> JStr path,
                           ''data'' \<mapsto> usageEvent, ''resolveWithFullResponse'' \<mapsto> JBool True]
                        ++ [''method'' \<mapsto> JStr ''post''])],
                ReturnsNothing)
         | None \<Rightarrow>
             ([Axios (track_getAxiosConfig d
                        [''env'' \<mapsto> JStr (getEnv d aid), ''url'' \<mapsto> JStr path,
                         ''data'' \<mapsto> usageEvent, ''resolveWithFullResponse'' \<mapsto> JBool True]
                      ++ [''method'' \<mapsto> JStr ''post''])],
              ReturnsNothing))"

text \<open>
  The condition under which \<open>trackUsage\<close> takes its authenticated branch, and what
  makes a call a POST.
\<close>

definition sends_authenticated :: "track_consts \<Rightarrow> int option \<Rightarrow> bool" where
  "sends_authenticated d aid =
     (truthy_num aid \<and>
      (case getAccountConfig d (the aid) of
         Some a \<Rightarrow> authType a = Some ''personalaccesskey''
       | None \<Rightarrow> False))"

fun is_post :: "http_call \<Rightarrow> bool" where
  "is_post (Http_post _ _) = True"
| "is_post (Http_put _ _) = False"
| "is_post (Axios cfg) = (cfg ''method'' = Some (JStr ''post''))"

fun is_put :: "http_call \<Rightarrow> bool" where
  "is_put (Http_post _ _) = False"
| "is_put (Http_put _ _) = True"
| "is_put (Axios cfg) = (cfg ''method'' = Some (JStr ''put''))"

text \<open>The options object a call carries.\<close>

fun call_options :: "http_call \<Rightarrow> jsobj" where
  "call_options (Http_post _ opts) = opts"
| "call_options (Http_put _ opts) = opts"
| "call_options (Axios cfg) = cfg"

section \<open>lib/archive.ts\<close>

text \<open>
  The filesystem is an oracle: for each call of \<open>fs-extra\<close> and \<open>extract-zip\<close> it
  says whether the call fails, and what \<open>mkdtemp\<close> and \<open>readdir\<close> return. The model
  records the calls in the order they are made. \<open>join\<close> is \<open>path.join\<close> without its
  normalisation. The two copies of archive.ts under the sources differ in logging and in
  the helper that wraps a failed write or extraction; the copy with log callbacks is
  the one modelled.
\<close>

record archive_env =
  tmpdir :: string
  mkdtemp_result :: "string \<Rightarrow> error + string"
  ensureFile_result :: "string \<Rightarrow> error option"
  writeFile_result :: "string \<Rightarrow> error option"
  extract_result :: "string \<Rightarrow> string \<Rightarrow> error option"
  readdir_result :: "string \<Rightarrow> error + string list"
  copy_result :: "string \<Rightarrow> string \<Rightarrow> error option"

datatype fs_call =
    Mkdtemp string
  | EnsureFile string
  | WriteFile string "nat list"
  | Extract string string
  | Readdir string
  | EnsureDir string
  | Copy string string
  | Remove string

fun join :: "string list \<Rightarrow> string" where
  "join [] = ''.''"
| "join [p] = p"
| "join (p # q # ps) = p @ ''/'' @ join (q # ps)"

record ZipData =
  extractDir :: string
  tmpDir :: string

text \<open>
  \<open>extractZip(name, zip)\<close>. In the first \<open>catch\<close>, \<open>tmpZipPath || result.tmpDir\<close>
  is empty only when \<open>mkdtemp\<close> itself failed.
\<close>

definition extractZip ::
  "archive_env \<Rightarrow> string \<Rightarrow> nat list \<Rightarrow> fs_call list \<times> (error + ZipData)"
where
  "extractZip fs nm zip_buffer =
     (let TMP_FOLDER_PREFIX = ''hubspot-temp-'' @ nm @ ''-'';
          c1 = Mkdtemp (join [tmpdir fs, TMP_FOLDER_PREFIX])
      in case mkdtemp_result fs (join [tmpdir fs, TMP_FOLDER_PREFIX]) of
           Inl err \<Rightarrow> ([c1], Inl (throwErrorWithMessage ''lib.archive.extractZip.errors.write''))
         | Inr dir \<Rightarrow>
             (let tmpZipPath = join [dir, ''hubspot-temp.zip''];
                  c2 = EnsureFile tmpZipPath;
                  c3 = WriteFile tmpZipPath zip_buffer;
                  failedPath = (if tmpZipPath \<noteq> [] then tmpZipPath else dir)
              in case ensureFile_result fs tmpZipPath of
                   Some err \<Rightarrow> ([c1, c2], Inl (throwFileSystemError err failedPath))
                 | None \<Rightarrow>
                     (case writeFile_result fs tmpZipPath of
                        Some err \<Rightarrow> ([c1, c2, c3], Inl (throwFileSystemError err failedPath))
                      | None \<Rightarrow>
                          (let tmpExtractPath = join [dir, ''extracted''];
                               c4 = Extract tmpZipPath tmpExtractPath
                           in case extract_result fs tmpZipPath tmpExtractPath of
                                Some err \<Rightarrow>
                                  ([c1, c2, c3, c4],
                                   Inl (throwErrorWithMessage ''lib.archive.extractZip.errors.extract''))
                              | None \<Rightarrow>
                                  ([c1, c2, c3, c4],
                                   Inr \<lparr>extractDir = tmpExtractPath, tmpDir = dir\<rparr>)))))"

record CopySourceToDestOptions =
  sourceDir :: "string option"
  includesRootDir :: "bool option"

text \<open>The tail of \<open>copySourceToDest\<close>: the optional \<open>sourceDir\<close>, the join and the copy.\<close>

definition copy_joined ::
  "archive_env \<Rightarrow> fs_call list \<Rightarrow> string list \<Rightarrow> string \<Rightarrow> string option
     \<Rightarrow> fs_call list \<times> (error + bool)"
where
  "copy_joined fs calls srcDirPath dest srcDir =
     (let srcDirPath' = (if truthy_str srcDir then srcDirPath @ [the srcDir] else srcDirPath);
          projectSrcDir = join srcDirPath'
      in case copy_result fs projectSrcDir dest of
           Some err \<Rightarrow> (calls @ [Copy projectSrcDir dest], Inl (throwFileSystemError err dest))
         | None \<Rightarrow> (calls @ [Copy projectSrcDir dest], Inr True))"

text \<open>
  \<open>copySourceToDest(src, dest, options)\<close>; \<open>includesRootDir\<close> defaults to true. The
  call \<open>fs.ensureDir(dest)\<close> is not awaited.
\<close>

definition copySourceToDest ::
  "archive_env \<Rightarrow> string \<Rightarrow> string \<Rightarrow> CopySourceToDestOptions \<Rightarrow> fs_call list \<times> (error + bool)"
where
  "copySourceToDest fs src dest opts =
     (if (case includesRootDir opts of None \<Rightarrow> True | Some b \<Rightarrow> b) then
        (case readdir_result fs src of
           Inl err \<Rightarrow> ([Readdir src], Inl (throwFileSystemError err dest))
         | Inr files \<Rightarrow>
             (case files of
                [] \<Rightarrow> ([Readdir src, EnsureDir dest], Inr True)
              | rootDir # _ \<Rightarrow>
                  if rootDir = [] then ([Readdir src, EnsureDir dest], Inr True)
                  else copy_joined fs [Readdir src] [src, rootDir] dest (sourceDir opts)))
      else copy_joined fs [] [src] dest (sourceDir opts))"

text \<open>\<open>cleanupTempDir(tmpDir)\<close>: \<open>fs.remove\<close> is called and not awaited.\<close>

definition cleanupTempDir :: "string \<Rightarrow> fs_call list" where
  "cleanupTempDir dir = (if dir = [] then [] else [Remove dir])"

text \<open>
  \<open>extractZipArchive(zip, name, dest, options)\<close>. A \<open>Buffer\<close> is an object and so
  truthy whatever its length; \<open>None\<close> is a null or undefined argument. \<open>extractDir\<close>
  is a string, so the test \<open>extractDir !== null\<close> always passes. A throw of
  \<open>extractZip\<close> or \<open>copySourceToDest\<close> leaves the function at the \<open>await\<close>.
\<close>

definition extractZipArchive ::
  "archive_env \<Rightarrow> nat list option \<Rightarrow> string \<Rightarrow> string \<Rightarrow> CopySourceToDestOptions
     \<Rightarrow> fs_call list \<times> (error + bool)"
where
  "extractZipArchive fs zip_buffer nm dest opts =
     (case zip_buffer of
        None \<Rightarrow> ([], Inr False)
      | Some buf \<Rightarrow>
          (case extractZip fs nm buf of
             (t1, Inl e) \<Rightarrow> (t1, Inl e)
           | (t1, Inr zd) \<Rightarrow>
               (case copySourceToDest fs (extractDir zd) dest opts of
                  (t2, Inl e) \<Rightarrow> (t1 @ t2, Inl e)
                | (t2, Inr success) \<Rightarrow> (t1 @ t2 @ cleanupTempDir (tmpDir zd), Inr success))))"

text \<open>The removals among the recorded calls.\<close>

definition removals :: "fs_call list \<Rightarrow> string list" where
  "removals t = concat (map (\<lambda>c. case c of Remove d \<Rightarrow> [d] | _ \<Rightarrow> []) t)"

section \<open>Concrete parameters\<close>

text \<open>
  Values for the parameters above, used to run the model at concrete inputs: a world
  holding one configuration file and the configuration the environment variables
  describe, and the constants as their names suggest.
\<close>

record example_world =
  file_content :: "CLIConfig option"
  environment_config :: "CLIConfig option"

definition example_api :: "example_world configFile" where
  "example_api =
     \<lparr>loadConfigFromEnvironment = environment_config,
      loadConfigFromFile = (\<lambda>w. Inr (file_content w)),
      writeConfigToFile = (\<lambda>c w. Inr (w\<lparr>file_content := Some c\<rparr>)),
      configFileExists = (\<lambda>w. file_content w \<noteq> None),
      configFileIsBlank = (\<lambda>w. False),
      deleteConfigFile = (\<lambda>w. Inr (w\<lparr>file_content := None\<rparr>))\<rparr>"

definition example_consts :: account_consts where
  "example_consts =
     \<lparr>getValidEnv = (\<lambda>e. if map_option toLowerCase e = Some ''qa'' then Some ''qa'' else Some ''prod''),
      API_KEY_AUTH_METHOD_value = ''apikey'',
      DEFAULT_MODES = [''draft'' \<mapsto> ''draft'', ''publish'' \<mapsto> ''publish'']\<rparr>"

definition example_http :: http_consts where
  "example_http =
     \<lparr>version = ''1.0.0'',
      getHubSpotApiOrigin =
        (\<lambda>e useLocalHost.
           if useLocalHost = Some True then ''https://local.hubapi.com''
           else ''https://api.hubapi.com'')\<rparr>"

definition example_track :: "account option \<Rightarrow> track_consts" where
  "example_track a =
     \<lparr>FILE_MAPPER_API_PATH = ''cms/v2'',
      getAccountConfig = (\<lambda>_. a),
      getEnv = (\<lambda>_. ''prod''),
      track_getAxiosConfig = (\<lambda>opts. opts)\<rparr>"

text \<open>A filesystem where every call succeeds except, when asked, the extraction.\<close>

definition example_fs :: "bool \<Rightarrow> archive_env" where
  "example_fs extractFails =
     \<lparr>tmpdir = ''/tmp'',
      mkdtemp_result = (\<lambda>p. Inr (p @ ''abc'')),
      ensureFile_result = (\<lambda>_. None),
      writeFile_result = (\<lambda>_. None),
      extract_result = (\<lambda>_ _. if extractFails then Some (IOError ''invalid zip'') else None),
      readdir_result = (\<lambda>_. Inr [''root'']),
      copy_result = (\<lambda>_ _. None)\<rparr>"

definition account_with :: "int \<Rightarrow> string option \<Rightarrow> account" where
  "account_with i n = empty_account\<lparr>accountId := Some i, name := n\<rparr>"

definition config_with :: "account list \<Rightarrow> CLIConfig" where
  "config_with accs = empty_config\<lparr>accounts := accs\<rparr>"

text \<open>
  A world whose environment variables describe account 7, and the object after
  \<open>load\<close> with \<open>useEnv\<close> set there; a world with no configuration at all.
\<close>

definition env_world :: example_world where
  "env_world =
     \<lparr>file_content = Some (config_with []),
      environment_config = Some (config_with [account_with 7 None])\<rparr>"

definition env_loaded :: CLIConfiguration where
  "env_loaded =
     \<lparr>options = \<lparr>useEnv = Some True\<rparr>, useEnvConfig = True,
      config = Some (config_with [account_with 7 None])\<rparr>"

definition no_file_world :: example_world where
  "no_file_world = \<lparr>file_content = None, environment_config = None\<rparr>"

text \<open>An object holding account 1 named \<open>old\<close>, a rename of it, and the merged record.\<close>

definition one_account :: CLIConfiguration where
  "one_account =
     new_CLIConfiguration\<lparr>config := Some (config_with [account_with 1 (Some ''old'')])\<rparr>"

definition renamed_account :: account where
  "renamed_account = (account_with 1 (Some ''renamed''))\<lparr>env := Some ''prod''\<rparr>"

text \<open>
  An object holding account 1 with a personal access key, an update that supplies an
  API key, and the merged record.
\<close>

definition pak_account :: account where
  "pak_account = (account_with 1 (Some ''old''))\<lparr>authType := Some ''personalaccesskey''\<rparr>"




text \<open>A configuration where account 12 is named \<open>13\<close> and account 13 is named \<open>a\<close>.\<close>

definition numeric_name_config :: CLIConfig where
  "numeric_name_config =
     (config_with [account_with 12 (Some ''13''), account_with 13 (Some ''a'')])
       \<lparr>defaultAccount := Some (Str ''13'')\<rparr>"

text \<open>
  An object whose configuration is loaded and has no accounts and no settings, a call
  of \<open>getRequestOptions\<close> with no options, and the object it returns there.
\<close>

definition empty_loaded :: CLIConfiguration where
  "empty_loaded = new_CLIConfiguration\<lparr>config := Some (config_with [])\<rparr>"

definition no_options :: GetRequestOptionsOptions where
  "no_options = \<lparr>opt_env = None, opt_localHostOverride = None\<rparr>"

definition default_request_options :: jsobj where
  "default_request_options =
     [''baseUrl'' \<mapsto> JStr ''https://api.hubapi.com'',
      ''headers'' \<mapsto> JObj [(''User-Agent'', JStr ''HubSpot Local Dev Lib/1.0.0'')],
      ''json'' \<mapsto> JBool True,
      ''simple'' \<mapsto> JBool True,
      ''timeout'' \<mapsto> JNum 15000]"

definition default_copy_options :: CopySourceToDestOptions where
  "default_copy_options = \<lparr>sourceDir = None, includesRootDir = None\<rparr>"

section \<open>Environment-sourced configuration is never written back\<close>

lemma load_from_environment:
  "load example_api (new_CLIConfiguration\<lparr>options := \<lparr>useEnv = Some True\<rparr>\<rparr>) env_world
     = Inr (config env_loaded, env_loaded)"
  by (simp add: load_def example_api_def env_world_def env_loaded_def new_CLIConfiguration_def
      config_with_def empty_config_def)

text \<open>
  C4. When \<open>useEnvConfig\<close> is true, \<open>write\<close> returns the in-memory configuration and
  leaves the object and the world outside as they were, also when an updated
  configuration is passed; \<open>delete\<close> leaves both as they were. So a change of the file
  by either needs \<open>useEnvConfig\<close> to be false.
\<close>

theorem env_config_write_delete_frame:
  assumes "useEnvConfig s"
  shows "write_config api updatedConfig s w = Inr (config s, s, w)
         \<and> delete api s w = Inr (s, w)"
  using assms by (simp add: write_config_def delete_def)

theorem env_config_write_delete_frame_witness:
  "useEnvConfig env_loaded
   \<and> write_config example_api (Some (config_with [])) env_loaded env_world
       = Inr (config env_loaded, env_loaded, env_world)
   \<and> delete example_api env_loaded env_world = Inr (env_loaded, env_world)"
proof -
  have h: "useEnvConfig env_loaded" by (simp add: env_loaded_def)
  show ?thesis using h env_config_write_delete_frame [OF h] by simp
qed

section \<open>Loading from the file\<close>

text \<open>
  C9. When \<open>options.useEnv\<close> is not truthy and \<open>loadConfigFromFile\<close> returns \<open>v\<close>,
  \<open>load\<close> returns \<open>v\<close> and leaves \<open>v\<close> as the in-memory configuration, with
  \<open>useEnvConfig\<close> false; for \<open>v\<close> null both are null, the default
  \<open>{ accounts: [] }\<close> having been overwritten.
\<close>

theorem load_file_branch:
  assumes "useEnv (options s) \<noteq> Some True" and "loadConfigFromFile api w = Inr v"
  shows "load api s w = Inr (v, s\<lparr>useEnvConfig := False, config := v\<rparr>)"
  using assms by (simp add: load_def Let_def)

theorem load_file_branch_witness:
  "useEnv (options new_CLIConfiguration) \<noteq> Some True
   \<and> loadConfigFromFile example_api no_file_world = Inr None
   \<and> load example_api new_CLIConfiguration no_file_world
       = Inr (None, new_CLIConfiguration\<lparr>useEnvConfig := False, config := None\<rparr>)"
proof -
  have h1: "useEnv (options new_CLIConfiguration) \<noteq> Some True"
    by (simp add: new_CLIConfiguration_def)
  have h2: "loadConfigFromFile example_api no_file_world = Inr None"
    by (simp add: example_api_def no_file_world_def)
  show ?thesis using h1 h2 load_file_branch [OF h1 h2] by simp
qed

section \<open>Looking an account up\<close>

lemma double_exponent_small: "n < 2 ^ 53 \<Longrightarrow> double_exponent n = 0"
  by (simp add: double_exponent.simps)

lemma to_double_small: "n < 2 ^ 53 \<Longrightarrow> to_double n = n"
  by (simp add: to_double_def double_exponent_small)

lemma parseInt_small:
  assumes "decimal_value s < 2 ^ 53"
  shows "parseInt s = Finite (int (decimal_value s))"
proof -
  have "(2::nat) ^ 53 < 2 ^ 1024" by simp
  with assms have "decimal_value s < 2 ^ 1024" by (rule less_trans)
  with assms show ?thesis by (simp add: parseInt_def to_double_small)
qed

text \<open>Past \<open>2^53\<close> the parsed number is rounded: this string denotes \<open>2^53 + 1\<close>.\<close>

lemma parseInt_rounds:
  "parseInt ''9007199254740993'' = Finite 9007199254740992"
proof -
  have d: "decimal_value ''9007199254740993'' = 9007199254740993"
    by (simp add: decimal_value_def)
  have e: "double_exponent 9007199254740993 = 1"
    by (simp add: double_exponent.simps [of 9007199254740993] double_exponent_small)
  show ?thesis by (simp add: parseInt_def d to_double_def e)
qed

lemma parseInt_13: "parseInt ''13'' = Finite 13"
  by (simp add: parseInt_small decimal_value_def)

lemma parseInt_0: "parseInt ''0'' = Finite 0"
  by (simp add: parseInt_small decimal_value_def)

lemma getAccount_falsy:
  "\<not> truthy arg \<Longrightarrow> getAccount c arg = getAccount c (getDefaultAccount c)"
  by (simp add: getAccount_def Let_def split: option.splits)

lemma getAccount_by_number:
  "n \<noteq> 0 \<Longrightarrow>
   getAccount (Some cfg) (Some (Num n)) = find (\<lambda>a. accountId a = Some n) (accounts cfg)"
  by (simp add: getAccount_def truthy_def truthy_str_def truthy_number_def same_number_def)

lemma find_never: "find (\<lambda>a. False) xs = None"
  by (induction xs) simp_all

lemma getAccount_digits:
  assumes "all_digits s"
  shows "getAccount (Some cfg) (Some (Str s)) =
     (case parseInt s of
        Infinity \<Rightarrow> None
      | Finite n \<Rightarrow>
          if n = 0 then None else find (\<lambda>a. accountId a = Some n) (accounts cfg))"
proof -
  from assms have "s \<noteq> []" by (simp add: all_digits_def)
  then have t: "truthy (Some (Str s))" by (simp add: truthy_def)
  show ?thesis
  proof (cases "parseInt s")
    case (Finite n)
    with assms t show ?thesis
      by (simp add: getAccount_def Let_def truthy_str_def truthy_number_def same_number_def)
  next
    case Infinity
    with assms t show ?thesis
      by (simp add: getAccount_def Let_def truthy_str_def truthy_number_def same_number_def
          find_never)
  qed
qed

text \<open>
  C10, as stated, fails twice. The configuration \<open>{accounts: [{accountId: 13,
  name: '13'}]}\<close> passes \<open>validate\<close>, and \<open>getAccount('13')\<close> returns the account
  whose name is the numeric string \<open>13\<close>. And the string \<open>0\<close> consists of digits only
  and parses to 0, the configuration holds an account with that accountId, yet the
  lookup returns null.
\<close>

theorem getAccount_numeric_name_and_zero:
  "all_digits ''13''
   \<and> name (account_with 13 (Some ''13'')) = Some ''13''
   \<and> validate (Some (AccountsArray [Some (account_with 13 (Some ''13''))]))
   \<and> getAccount (Some (config_with [account_with 13 (Some ''13'')])) (Some (Str ''13''))
       = Some (account_with 13 (Some ''13''))
   \<and> all_digits ''0''
   \<and> parseInt ''0'' = Finite 0
   \<and> account_with 0 (Some ''a'') \<in> set (accounts (config_with [account_with 0 (Some ''a'')]))
   \<and> accountId (account_with 0 (Some ''a'')) = Some 0
   \<and> getAccount (Some (config_with [account_with 0 (Some ''a'')])) (Some (Str ''0'')) = None"
proof -
  have d13: "all_digits ''13''" by (simp add: all_digits_def is_digit_def)
  have d0: "all_digits ''0''" by (simp add: all_digits_def is_digit_def)
  have v: "validate (Some (AccountsArray [Some (account_with 13 (Some ''13''))]))"
    by (simp add: validate_def account_with_def truthy_str_def accountIdsMap_get_def
        accountNamesMap_get_def Object_prototype_keys_def contains_whitespace_def
        is_whitespace_def)
  have g13: "getAccount (Some (config_with [account_with 13 (Some ''13'')])) (Some (Str ''13''))
               = Some (account_with 13 (Some ''13''))"
    by (simp add: getAccount_digits [OF d13] parseInt_13 config_with_def account_with_def)
  have g0: "getAccount (Some (config_with [account_with 0 (Some ''a'')])) (Some (Str ''0''))
              = None"
    by (simp add: getAccount_digits [OF d0] parseInt_0)
  show ?thesis
    by (intro conjI d13 v g13 d0 parseInt_0 g0) (simp_all add: account_with_def config_with_def)
qed

text \<open>
  C10, amended. A falsy argument (undefined, 0 or the empty string) gives what the
  configured default account gives. A string of digits is parsed as a number; when
  that number is finite and not zero the result is the first account whose accountId
  equals it, and otherwise the result is null. No name is compared: an account
  returned for a string of digits has the parsed number, which is not zero, as its
  accountId.
\<close>

theorem getAccount_fallback_and_digits:
  "(\<not> truthy arg \<longrightarrow> getAccount c arg = getAccount c (getDefaultAccount c))
   \<and> (all_digits s \<longrightarrow>
        getAccount (Some cfg) (Some (Str s)) =
          (case parseInt s of
             Infinity \<Rightarrow> None
           | Finite n \<Rightarrow>
               if n = 0 then None else find (\<lambda>a. accountId a = Some n) (accounts cfg)))
   \<and> (all_digits s \<and> getAccount (Some cfg) (Some (Str s)) = Some a
        \<longrightarrow> (\<exists>n. n \<noteq> 0 \<and> parseInt s = Finite n \<and> accountId a = Some n))"
proof (intro conjI impI)
  assume "\<not> truthy arg"
  then show "getAccount c arg = getAccount c (getDefaultAccount c)"
    by (rule getAccount_falsy)
next
  assume "all_digits s"
  then show "getAccount (Some cfg) (Some (Str s)) =
          (case parseInt s of
             Infinity \<Rightarrow> None
           | Finite n \<Rightarrow>
               if n = 0 then None else find (\<lambda>a. accountId a = Some n) (accounts cfg))"
    by (rule getAccount_digits)
next
  assume h: "all_digits s \<and> getAccount (Some cfg) (Some (Str s)) = Some a"
  then have g: "(case parseInt s of
             Infinity \<Rightarrow> None
           | Finite n \<Rightarrow>
               if n = 0 then None else find (\<lambda>a. accountId a = Some n) (accounts cfg))
          = Some a"
    using getAccount_digits [of s cfg] by simp
  show "\<exists>n. n \<noteq> 0 \<and> parseInt s = Finite n \<and> accountId a = Some n"
  proof (cases "parseInt s")
    case Infinity
    with g show ?thesis by simp
  next
    case (Finite n)
    with g have n: "n \<noteq> 0" and f: "find (\<lambda>a. accountId a = Some n) (accounts cfg) = Some a"
      by (simp_all split: if_splits)
    from f have "accountId a = Some n" by (auto simp: find_Some_iff)
    with n Finite show ?thesis by (intro exI [of _ n] conjI)
  qed
qed

theorem getAccount_fallback_and_digits_witness:
  "\<not> truthy (Some (Num 0))
   \<and> all_digits ''13''
   \<and> getAccount (Some numeric_name_config) (Some (Num 0))
       = getAccount (Some numeric_name_config) (Some (Str ''13''))
   \<and> getAccount (Some numeric_name_config) (Some (Str ''13''))
       = Some (account_with 13 (Some ''a''))
   \<and> name (account_with 12 (Some ''13'')) = Some ''13''"
proof -
  have h1: "\<not> truthy (Some (Num 0))" by (simp add: truthy_def)
  have h2: "all_digits ''13''" by (simp add: all_digits_def is_digit_def)
  have d: "getDefaultAccount (Some numeric_name_config) = Some (Str ''13'')"
    by (simp add: getDefaultAccount_def numeric_name_config_def truthy_def)
  note t = getAccount_fallback_and_digits
             [of "Some (Num 0)" "Some numeric_name_config" "''13''" numeric_name_config]
  have a: "getAccount (Some numeric_name_config) (Some (Num 0))
             = getAccount (Some numeric_name_config) (Some (Str ''13''))"
    using t h1 d by simp
  have b: "getAccount (Some numeric_name_config) (Some (Str ''13''))
             = Some (account_with 13 (Some ''a''))"
    using t h2 by (simp add: parseInt_13 numeric_name_config_def config_with_def account_with_def)
  show ?thesis
    by (intro conjI h1 h2 a b) (simp add: account_with_def)
qed

section \<open>Updating an account\<close>

lemmas run_simps =
  updateAccount_def new_CLIConfiguration_def config_with_def account_with_def
  empty_config_def empty_account_def truthy_num_def getAccount_def truthy_def
  truthy_str_def truthy_number_def same_number_def getConfigAccountIndex_def
  completedAccountConfig_def Let_def safelyApplyUpdates_def next_auth_def example_consts_def

text \<open>Renaming the only account: the merged record is stored at its index and appended.\<close>

lemma rename_run:
  "updateAccount example_api example_consts (account_with 1 (Some ''renamed'')) False
     one_account no_file_world
   = Inr (Some renamed_account,
          new_CLIConfiguration\<lparr>config := Some (config_with [renamed_account, renamed_account])\<rparr>,
          no_file_world)"
  by (simp add: run_simps one_account_def renamed_account_def)

text \<open>
  C1. The list \<open>[{accountId: 1, name: 'old'}]\<close> has distinct account ids; after
  \<open>updateAccount({accountId: 1, name: 'renamed'}, false)\<close> the list holds the merged
  record twice, so the ids are no longer distinct.
\<close>

theorem updateAccount_duplicates_existing_account:
  "distinct (map accountId (accounts (config_with [account_with 1 (Some ''old'')])))
   \<and> config one_account = Some (config_with [account_with 1 (Some ''old'')])
   \<and> updateAccount example_api example_consts (account_with 1 (Some ''renamed'')) False
       one_account no_file_world
     = Inr (Some renamed_account,
            new_CLIConfiguration\<lparr>config := Some (config_with [renamed_account, renamed_account])\<rparr>,
            no_file_world)
   \<and> \<not> distinct (map accountId (accounts (config_with [renamed_account, renamed_account])))"
  by (simp add: rename_run) (simp add: one_account_def config_with_def)






text \<open>
  What \<open>updateAccount\<close> does when the account named by the update is present and the
  call returns: the merged record is returned, stored at the index of the account
  that \<open>getAccount\<close> found, and stored again at the end of the list.
\<close>

lemma findIndex_of_find:
  "find p xs = Some x \<Longrightarrow> \<exists>i. findIndex p xs = Some i \<and> i < length xs \<and> xs ! i = x"
  by (induction xs) (auto split: if_splits)

lemma write_config_keeps:
  "write_config api None s w = Inr (r, s2, w') \<Longrightarrow> s2 = s"
  by (auto simp: write_config_def Let_def split: if_splits option.splits sum.splits)

lemma updateAccount_existing_unfold:
  assumes "config s = Some cfg" and "accountId u = Some n" and "n \<noteq> 0"
      and "getAccount (Some cfg) (Some (Num n)) = Some cur"
      and "findIndex (\<lambda>a. accountId a = Some n) (accounts cfg) = Some i"
  shows "updateAccount api k u writeUpdate s w =
     (if writeUpdate then
        (case write_config api None
                (s\<lparr>config := Some (cfg\<lparr>accounts :=
                   (accounts cfg)[i := completedAccountConfig k u (Some cur)]
                     @ [completedAccountConfig k u (Some cur)]\<rparr>)\<rparr>) w of
           Inl e \<Rightarrow> Inl e
         | Inr (_, s2, w') \<Rightarrow> Inr (Some (completedAccountConfig k u (Some cur)), s2, w'))
      else Inr (Some (completedAccountConfig k u (Some cur)),
                s\<lparr>config := Some (cfg\<lparr>accounts :=
                   (accounts cfg)[i := completedAccountConfig k u (Some cur)]
                     @ [completedAccountConfig k u (Some cur)]\<rparr>)\<rparr>, w))"
  using assms
  by (simp add: updateAccount_def Let_def getConfigAccountIndex_def truthy_num_def)

lemma updateAccount_Inr_truthy:
  "updateAccount api k u writeUpdate s w = Inr x \<Longrightarrow> truthy_num (accountId u)"
  by (cases "truthy_num (accountId u)") (simp_all add: updateAccount_def)

lemma truthy_numE:
  assumes "truthy_num v" obtains n where "v = Some n" "n \<noteq> 0"
  using assms by (cases v) (auto simp: truthy_num_def)

lemma updateAccount_existing_effect:
  assumes "config s = Some cfg"
      and "getAccount (Some cfg) (map_option Num (accountId u)) = Some cur"
      and "updateAccount api k u writeUpdate s w = Inr (res, s', w')"
  shows "\<exists>i. getConfigAccountIndex (Some cfg) (the (accountId u)) = Some i
           \<and> i < length (accounts cfg)
           \<and> accounts cfg ! i = cur
           \<and> res = Some (completedAccountConfig k u (Some cur))
           \<and> s' = s\<lparr>config := Some (cfg\<lparr>accounts :=
                      (accounts cfg)[i := completedAccountConfig k u (Some cur)]
                        @ [completedAccountConfig k u (Some cur)]\<rparr>)\<rparr>"
proof -
  have "truthy_num (accountId u)"
    using assms(3) by (rule updateAccount_Inr_truthy)
  then obtain n where n: "accountId u = Some n" "n \<noteq> 0"
    by (rule truthy_numE)
  have g: "getAccount (Some cfg) (Some (Num n)) = Some cur"
    using assms(2) n by simp
  then have f: "find (\<lambda>a. accountId a = Some n) (accounts cfg) = Some cur"
    using n by (simp add: getAccount_by_number)
  from findIndex_of_find [OF f]
  obtain i where i: "findIndex (\<lambda>a. accountId a = Some n) (accounts cfg) = Some i"
    "i < length (accounts cfg)" "accounts cfg ! i = cur"
    by (elim exE conjE)
  define c where "c = completedAccountConfig k u (Some cur)"
  define s1 where "s1 = s\<lparr>config := Some (cfg\<lparr>accounts := (accounts cfg)[i := c] @ [c]\<rparr>)\<rparr>"
  have u: "updateAccount api k u writeUpdate s w =
     (if writeUpdate then
        (case write_config api None s1 w of
           Inl e \<Rightarrow> Inl e
         | Inr (_, s2, w') \<Rightarrow> Inr (Some c, s2, w'))
      else Inr (Some c, s1, w))"
    unfolding s1_def c_def
    by (rule updateAccount_existing_unfold [OF assms(1) n g i(1)])
  have "res = Some c \<and> s' = s1"
  proof (cases writeUpdate)
    case True
    with u assms(3) obtain r where w: "write_config api None s1 w = Inr (r, s', w')"
      and r: "res = Some c"
      by (cases "write_config api None s1 w") auto
    from w have "s' = s1" by (rule write_config_keeps)
    with r show ?thesis by simp
  next
    case False
    with u assms(3) show ?thesis by simp
  qed
  then have r: "res = Some c" and s: "s' = s1" by simp_all
  have x: "getConfigAccountIndex (Some cfg) (the (accountId u)) = Some i"
    using i(1) n by (simp add: getConfigAccountIndex_def)
  show ?thesis
    by (rule exI [of _ i]) (simp add: x i(2,3) r s c_def s1_def)
qed

lemma not_distinct_snoc: "c \<in> set xs \<Longrightarrow> \<not> distinct (map f (xs @ [c]))"
  by auto

lemma updateAccount_existing_not_distinct:
  assumes "config s = Some cfg"
      and "getAccount (Some cfg) (map_option Num (accountId u)) = Some cur"
      and "updateAccount api k u writeUpdate s w = Inr (res, s', w')"
  shows "\<exists>cfg'. config s' = Some cfg' \<and> \<not> distinct (map accountId (accounts cfg'))"
proof -
  define c where "c = completedAccountConfig k u (Some cur)"
  from updateAccount_existing_effect [OF assms]
  obtain i where i: "i < length (accounts cfg)"
    and c: "s' = s\<lparr>config := Some (cfg\<lparr>accounts := (accounts cfg)[i := c] @ [c]\<rparr>)\<rparr>"
    unfolding c_def by (elim exE conjE)
  have "c \<in> set ((accounts cfg)[i := c])"
    using i by (rule set_update_memI)
  then have n: "\<not> distinct (map accountId ((accounts cfg)[i := c] @ [c]))"
    by (rule not_distinct_snoc)
  show ?thesis
    using c n by (intro exI [of _ "cfg\<lparr>accounts := (accounts cfg)[i := c] @ [c]\<rparr>"]) simp
qed





section \<open>Validation\<close>

text \<open>
  C5. The configuration \<open>{accounts: [{accountId: 1, name: 'constructor'}]}\<close>
  meets every condition of the specification, and \<open>validate\<close> returns false: the
  read \<open>accountNamesMap['constructor']\<close> finds the property inherited from
  \<open>Object.prototype\<close> and the name is reported as a duplicate.
\<close>

theorem validate_rejects_prototype_name:
  "validate_spec (Some (AccountsArray [Some (account_with 1 (Some ''constructor''))]))
   \<and> \<not> validate (Some (AccountsArray [Some (account_with 1 (Some ''constructor''))]))"
  by (simp add: validate_spec_def validate_def spec_entry_ok_def account_with_def
      truthy_num_def truthy_str_def contains_whitespace_def is_whitespace_def
      accountIdsMap_get_def accountNamesMap_get_def Object_prototype_keys_def)

text \<open>
  Apart from such names the two agree: when no entry is named like a property of
  \<open>Object.prototype\<close>, \<open>validate\<close> returns true exactly when the specification's
  conditions hold.
\<close>

lemma ids_of_snoc:
  "ids_of (es @ [Some a]) = ids_of es \<union> (case accountId a of None \<Rightarrow> {} | Some i \<Rightarrow> {i})"
  by (auto simp: ids_of_def split: option.splits)

lemma names_of_snoc:
  "names_of (es @ [Some a]) = names_of es \<union> (if truthy_str (name a) then {the (name a)} else {})"
  by (auto simp: names_of_def truthy_str_def split: option.splits)

lemma spec_ids:
  "list_all (\<lambda>b. case b of None \<Rightarrow> True | Some b' \<Rightarrow> accountId b' \<noteq> Some i) earlier
     = (i \<notin> ids_of earlier)"
  by (auto simp: list_all_iff ids_of_def split: option.splits)

lemma spec_names:
  "n \<noteq> [] \<Longrightarrow>
   list_all (\<lambda>b. case b of None \<Rightarrow> True | Some b' \<Rightarrow> name b' \<noteq> Some n) earlier
     = (n \<notin> names_of earlier)"
  by (auto simp: list_all_iff names_of_def split: option.splits)

lemma validate_every_spec:
  assumes "set ids = ids_of earlier" and "set names = names_of earlier"
    and "\<forall>a n. Some a \<in> set xs \<and> name a = Some n \<longrightarrow> n \<notin> set Object_prototype_keys"
  shows "validate_every ids names xs = spec_entries_ok earlier xs"
  using assms
proof (induction xs arbitrary: ids names earlier)
  case Nil
  then show ?case by simp
next
  case (Cons e xs)
  have rest: "\<forall>a n. Some a \<in> set xs \<and> name a = Some n \<longrightarrow> n \<notin> set Object_prototype_keys"
    using Cons.prems(3) by auto
  show ?case
  proof (cases e)
    case None
    then show ?thesis by (simp add: spec_entry_ok_def)
  next
    case (Some a)
    show ?thesis
    proof (cases "accountId a")
      case None
      then show ?thesis using Some by (simp add: spec_entry_ok_def truthy_num_def)
    next
      case i: (Some i)
      have ids': "set (i # ids) = ids_of (earlier @ [Some a])"
        using Cons.prems(1) i by (simp add: ids_of_snoc)
      show ?thesis
      proof (cases "truthy_str (name a)")
        case False
        have names': "set names = names_of (earlier @ [Some a])"
          using Cons.prems(2) False by (simp add: names_of_snoc)
        have "validate_every (i # ids) names xs = spec_entries_ok (earlier @ [Some a]) xs"
          using Cons.IH [OF ids' names' rest] .
        then show ?thesis
          using Some i False Cons.prems(1)
          by (simp add: spec_entry_ok_def truthy_num_def accountIdsMap_get_def spec_ids)
      next
        case True
        then obtain n where n: "name a = Some n" "n \<noteq> []"
          by (cases "name a") (auto simp: truthy_str_def)
        have np: "n \<notin> set Object_prototype_keys"
          using Cons.prems(3) Some n by auto
        have names': "set (n # names) = names_of (earlier @ [Some a])"
          using Cons.prems(2) True n by (simp add: names_of_snoc)
        have "validate_every (i # ids) (n # names) xs = spec_entries_ok (earlier @ [Some a]) xs"
          using Cons.IH [OF ids' names' rest] .
        then show ?thesis
          using Some i True n np Cons.prems(1,2)
          by (simp add: spec_entry_ok_def truthy_num_def accountIdsMap_get_def
              accountNamesMap_get_def spec_ids spec_names Let_def)
      qed
    qed
  qed
qed

lemma validate_agrees_without_prototype_names:
  assumes "\<forall>a n. Some a \<in> set xs \<and> name a = Some n \<longrightarrow> n \<notin> set Object_prototype_keys"
  shows "validate (Some (AccountsArray xs)) = validate_spec (Some (AccountsArray xs))"
  using validate_every_spec [where ids = "[]" and names = "[]" and earlier = "[]" and xs = xs]
    assms
  by (simp add: validate_def validate_spec_def ids_of_def names_of_def)

section \<open>Archive extraction\<close>

lemmas fs_simps =
  extractZipArchive_def extractZip_def copySourceToDest_def copy_joined_def
  cleanupTempDir_def example_fs_def Let_def throwErrorWithMessage_def
  throwFileSystemError_def truthy_str_def default_copy_options_def removals_def

text \<open>
  C3. With a buffer whose extraction fails, the calls made are \<open>mkdtemp\<close>,
  \<open>ensureFile\<close>, \<open>writeFile\<close> and the extraction; the function throws, and no
  removal of the temporary directory is among the calls.
\<close>

theorem extractZipArchive_failed_extraction_leaves_tmpdir:
  "extractZipArchive (example_fs True) (Some [80, 75]) ''repo'' ''dest'' default_copy_options
   = ([Mkdtemp ''/tmp/hubspot-temp-repo-'',
       EnsureFile ''/tmp/hubspot-temp-repo-abc/hubspot-temp.zip'',
       WriteFile ''/tmp/hubspot-temp-repo-abc/hubspot-temp.zip'' [80, 75],
       Extract ''/tmp/hubspot-temp-repo-abc/hubspot-temp.zip''
         ''/tmp/hubspot-temp-repo-abc/extracted''],
      Inl (ErrorWithMessage ''lib.archive.extractZip.errors.extract''))
   \<and> removals (fst (extractZipArchive (example_fs True) (Some [80, 75]) ''repo'' ''dest''
                     default_copy_options)) = []"
  by (simp add: fs_simps)

text \<open>When every call succeeds the order is the one the specification gives.\<close>

lemma extractZipArchive_success_order:
  "extractZipArchive (example_fs False) (Some [80, 75]) ''repo'' ''dest'' default_copy_options
   = ([Mkdtemp ''/tmp/hubspot-temp-repo-'',
       EnsureFile ''/tmp/hubspot-temp-repo-abc/hubspot-temp.zip'',
       WriteFile ''/tmp/hubspot-temp-repo-abc/hubspot-temp.zip'' [80, 75],
       Extract ''/tmp/hubspot-temp-repo-abc/hubspot-temp.zip''
         ''/tmp/hubspot-temp-repo-abc/extracted'',
       Readdir ''/tmp/hubspot-temp-repo-abc/extracted'',
       Copy ''/tmp/hubspot-temp-repo-abc/extracted/root'' ''dest'',
       Remove ''/tmp/hubspot-temp-repo-abc''],
      Inr True)"
  by (simp add: fs_simps)

text \<open>On every path that throws, whatever the filesystem does, nothing is removed.\<close>

lemma removals_append: "removals (a @ b) = removals a @ removals b"
  by (simp add: removals_def)

lemma extractZip_no_removal: "removals (fst (extractZip fs nm buf)) = []"
  by (simp add: extractZip_def Let_def removals_def split: sum.splits option.splits)

lemma copySourceToDest_no_removal: "removals (fst (copySourceToDest fs src dest opts)) = []"
  by (simp add: copySourceToDest_def copy_joined_def Let_def removals_def
      split: sum.splits option.splits list.splits)

lemma extractZipArchive_failure_no_cleanup:
  assumes "snd (extractZipArchive fs z nm dest opts) = Inl e"
  shows "removals (fst (extractZipArchive fs z nm dest opts)) = []"
proof (cases z)
  case None
  with assms show ?thesis by (simp add: extractZipArchive_def)
next
  case (Some buf)
  obtain t1 r1 where e1: "extractZip fs nm buf = (t1, r1)" by (cases "extractZip fs nm buf")
  have n1: "removals t1 = []" using extractZip_no_removal [of fs nm buf] e1 by simp
  show ?thesis
  proof (cases r1)
    case (Inl a)
    then show ?thesis using Some e1 n1 by (simp add: extractZipArchive_def)
  next
    case (Inr zd)
    obtain t2 r2 where e2: "copySourceToDest fs (extractDir zd) dest opts = (t2, r2)"
      by (cases "copySourceToDest fs (extractDir zd) dest opts")
    have n2: "removals t2 = []"
      using copySourceToDest_no_removal [of fs "extractDir zd" dest opts] e2 by simp
    show ?thesis
    proof (cases r2)
      case (Inl a)
      then show ?thesis using Some e1 Inr e2 n1 n2
        by (simp add: extractZipArchive_def removals_append)
    next
      case (Inr b)
      then show ?thesis using assms Some e1 \<open>r1 = Inr zd\<close> e2
        by (simp add: extractZipArchive_def)
    qed
  qed
qed

section \<open>Usage tracking\<close>

text \<open>
  C6. For account 1 with a personal access key \<open>trackUsage\<close> takes the authenticated
  branch and issues one POST; when that POST is rejected the promise of \<open>trackUsage\<close>
  is rejected with the same error, where the specification has it resolve whatever
  becomes of the POST.
\<close>

theorem trackUsage_authenticated_follows_post:
  "sends_authenticated (example_track (Some pak_account)) (Some 1)
   \<and> list_all is_post
       (fst (trackUsage (example_track (Some pak_account)) ''cli-interaction'' ''cli''
               (JObj []) (Some 1)))
   \<and> settles
       (snd (trackUsage (example_track (Some pak_account)) ''cli-interaction'' ''cli''
               (JObj []) (Some 1)))
       (Rejected (IOError ''network''))
     = Rejected (IOError ''network'')"
  by (simp add: sends_authenticated_def trackUsage_def example_track_def pak_account_def
      account_with_def truthy_num_def settles_def Let_def)

text \<open>
  On both branches exactly one request is issued, a POST. The unauthenticated branch
  does what the specification says: the returned promise is fulfilled whatever becomes
  of the POST. The authenticated branch returns the promise of \<open>http.post\<close>, so the
  promise of \<open>trackUsage\<close> settles as that one does.
\<close>

lemma trackUsage_one_post:
  "length (fst (trackUsage d eventName eventClass meta aid)) = 1
   \<and> list_all is_post (fst (trackUsage d eventName eventClass meta aid))
   \<and> (\<not> sends_authenticated d aid \<longrightarrow>
        settles (snd (trackUsage d eventName eventClass meta aid)) post_outcome = Fulfilled)
   \<and> (sends_authenticated d aid \<longrightarrow>
        settles (snd (trackUsage d eventName eventClass meta aid)) post_outcome = post_outcome)"
  by (auto simp: trackUsage_def sends_authenticated_def settles_def Let_def split: option.splits)

section \<open>Request options\<close>

text \<open>
  C7, as stated, fails: the configuration sets no \<open>httpTimeout\<close>, the caller passes
  \<open>{timeout: 1}\<close> as \<open>requestOptions\<close>, and the timeout returned is 1, not 15000.
\<close>

theorem getRequestOptions_timeout_overridden:
  "httpTimeout (config_with []) = None
   \<and> config empty_loaded = Some (config_with [])
   \<and> request_option
       (getRequestOptions example_api example_http no_options [''timeout'' \<mapsto> JNum 1]
          empty_loaded no_file_world) ''timeout''
     = Some (JNum 1)"
  by (simp add: request_option_def getRequestOptions_def getAndLoadConfigIfNeeded_def
      empty_loaded_def new_CLIConfiguration_def config_with_def empty_config_def)

text \<open>
  C7, amended. When \<open>getRequestOptions\<close> returns, the configuration is loaded, and
  for each of \<open>timeout\<close>, \<open>headers\<close> and \<open>baseUrl\<close> that \<open>requestOptions\<close> does not
  define: the timeout is the configuration's \<open>httpTimeout\<close> when set and non-zero and
  15000 otherwise, the headers are the default User-Agent header, and the base URL is
  \<open>getHubSpotApiOrigin\<close> of the env argument and of \<open>httpUseLocalhost\<close>, replaced by
  false when \<open>localHostOverride\<close> is set. Every property \<open>requestOptions\<close> defines is
  returned with the caller's value.
\<close>

theorem getRequestOptions_defaults:
  assumes "getRequestOptions api h opts requestOptions s w = Inr (r, s')"
  shows "\<exists>cfg. config s' = Some cfg
    \<and> (requestOptions ''timeout'' = None \<longrightarrow>
         r ''timeout'' = Some (JNum (case httpTimeout cfg of
                                      None \<Rightarrow> 15000
                                    | Some t \<Rightarrow> if t = 0 then 15000 else t)))
    \<and> (requestOptions ''headers'' = None \<longrightarrow>
         r ''headers'' = Some (JObj (DEFAULT_USER_AGENT_HEADERS (version h))))
    \<and> (requestOptions ''baseUrl'' = None \<longrightarrow>
         r ''baseUrl'' = Some (JStr (getHubSpotApiOrigin h (opt_env opts)
                                     (if opt_localHostOverride opts = Some True then Some False
                                      else httpUseLocalhost cfg))))
    \<and> (\<forall>k v. requestOptions k = Some v \<longrightarrow> r k = Some v)"
proof -
  from assms obtain cfg where
    g: "getAndLoadConfigIfNeeded api None s w = Inr (Some cfg, s')" and
    r: "r = [''baseUrl'' \<mapsto>
                  JStr (getHubSpotApiOrigin h (opt_env opts)
                          (if opt_localHostOverride opts = Some True then Some False
                           else httpUseLocalhost cfg)),
                ''headers'' \<mapsto> JObj (DEFAULT_USER_AGENT_HEADERS (version h)),
                ''json'' \<mapsto> JBool True,
                ''simple'' \<mapsto> JBool True,
                ''timeout'' \<mapsto>
                  JNum (if truthy_num (httpTimeout cfg) then the (httpTimeout cfg) else 15000)]
               ++ requestOptions"
    by (auto simp: getRequestOptions_def split: sum.splits option.splits)
  from g have c: "config s' = Some cfg"
    by (auto simp: getAndLoadConfigIfNeeded_def split: if_splits sum.splits)
  have t: "(if truthy_num (httpTimeout cfg) then the (httpTimeout cfg) else 15000)
           = (case httpTimeout cfg of None \<Rightarrow> 15000 | Some t \<Rightarrow> if t = 0 then 15000 else t)"
    by (simp add: truthy_num_def split: option.splits)
  show ?thesis
    using c unfolding r t by (simp add: map_add_def)
qed

lemma default_run:
  "getRequestOptions example_api example_http no_options Map.empty empty_loaded no_file_world
   = Inr (default_request_options, empty_loaded)"
  by (simp add: getRequestOptions_def getAndLoadConfigIfNeeded_def
      empty_loaded_def new_CLIConfiguration_def config_with_def empty_config_def
      default_request_options_def example_http_def no_options_def truthy_num_def
      DEFAULT_USER_AGENT_HEADERS_def)

theorem getRequestOptions_defaults_witness:
  "getRequestOptions example_api example_http no_options Map.empty empty_loaded no_file_world
     = Inr (default_request_options, empty_loaded)
   \<and> default_request_options ''timeout'' = Some (JNum 15000)
   \<and> default_request_options ''baseUrl'' = Some (JStr ''https://api.hubapi.com'')"
  using default_run getRequestOptions_defaults [OF default_run]
  by (simp add: empty_loaded_def new_CLIConfiguration_def config_with_def empty_config_def
      example_http_def no_options_def)

section \<open>API calls\<close>

lemma fetchAccessToken_options_url:
  "fetchAccessToken_options prodEnv pak e portalId ''url'' = Some (JStr ''localdevauth/v1/auth/refresh'')"
  by (simp add: fetchAccessToken_options_def LOCALDEVAUTH_API_AUTH_PATH_def Let_def)

lemma fetchAccessToken_options_params:
  "fetchAccessToken_options prodEnv pak e portalId ''params''
     = Some (JObj (case portalId of
                     None \<Rightarrow> []
                   | Some p \<Rightarrow> if p = 0 then [] else [(''portalId'', JNum p)]))"
  by (cases portalId) (simp_all add: fetchAccessToken_options_def truthy_num_def Let_def)

lemma fetchAccessToken_options_only_when:
  assumes "fetchAccessToken_options prodEnv pak e portalId ''params''
              = Some (JObj [(''portalId'', JNum p)])"
  shows "portalId = Some p"
proof (cases portalId)
  case None
  with assms show ?thesis by (simp add: fetchAccessToken_options_params)
next
  case (Some q)
  with assms show ?thesis by (simp add: fetchAccessToken_options_params split: if_splits)
qed

lemma schema_calls:
  "is_post (createSchemaFromHubFile resolve aid filepath)"
  "call_options (createSchemaFromHubFile resolve aid filepath) ''url''
       = Some (JStr ''/file-transport/v1/hubfiles/object-schemas'')"
  "is_put (updateSchemaFromHubFile resolve aid filepath)"
  "call_options (updateSchemaFromHubFile resolve aid filepath) ''url''
       = Some (JStr ''/file-transport/v1/hubfiles/object-schemas'')"
  by (simp_all add: createSchemaFromHubFile_def updateSchemaFromHubFile_def HUBFILES_API_PATH_def Let_def)

lemma fetchAccessToken_call:
  "fetchAccessToken g prodEnv pak e portalId
       = Axios (g (fetchAccessToken_options prodEnv pak e portalId)
                ++ [''method'' \<mapsto> JStr ''post''])"
  "is_post (fetchAccessToken g prodEnv pak e portalId)"
  by (simp_all add: fetchAccessToken_def Let_def)


text \<open>
  C8. \<open>createSchemaFromHubFile\<close> issues a POST and \<open>updateSchemaFromHubFile\<close> a PUT,
  both with the url \<open>/file-transport/v1/hubfiles/object-schemas\<close>.
  \<open>fetchAccessToken\<close> calls axios with the method \<open>post\<close> on the configuration
  \<open>getAxiosConfig\<close> builds from the url \<open>localdevauth/v1/auth/refresh\<close>; the params
  hold \<open>portalId\<close> when a non-zero one is passed and are empty otherwise, so a
  \<open>portalId\<close> in the params is the one provided.
\<close>

theorem api_calls_fixed_endpoints:
  "is_post (createSchemaFromHubFile resolve aid filepath)
   \<and> call_options (createSchemaFromHubFile resolve aid filepath) ''url''
       = Some (JStr ''/file-transport/v1/hubfiles/object-schemas'')
   \<and> is_put (updateSchemaFromHubFile resolve aid filepath)
   \<and> call_options (updateSchemaFromHubFile resolve aid filepath) ''url''
       = Some (JStr ''/file-transport/v1/hubfiles/object-schemas'')
   \<and> fetchAccessToken g prodEnv pak e portalId
       = Axios (g (fetchAccessToken_options prodEnv pak e portalId)
                ++ [''method'' \<mapsto> JStr ''post''])
   \<and> is_post (fetchAccessToken g prodEnv pak e portalId)
   \<and> fetchAccessToken_options prodEnv pak e portalId ''url''
       = Some (JStr ''localdevauth/v1/auth/refresh'')
   \<and> fetchAccessToken_options prodEnv pak e portalId ''params''
       = Some (JObj (case portalId of
                       None \<Rightarrow> []
                     | Some p \<Rightarrow> if p = 0 then [] else [(''portalId'', JNum p)]))
   \<and> (\<forall>p. fetchAccessToken_options prodEnv pak e portalId ''params''
              = Some (JObj [(''portalId'', JNum p)]) \<longrightarrow> portalId = Some p)"
  by (intro conjI allI impI schema_calls fetchAccessToken_call fetchAccessToken_options_url
      fetchAccessToken_options_params fetchAccessToken_options_only_when)

theorem api_calls_fixed_endpoints_witness:
  "fetchAccessToken_options ''prod'' ''key'' None (Some 42) ''params''
     = Some (JObj [(''portalId'', JNum 42)])
   \<and> fetchAccessToken_options ''prod'' ''key'' None (Some 42) ''url''
     = Some (JStr ''localdevauth/v1/auth/refresh'')
   \<and> is_post (fetchAccessToken id ''prod'' ''key'' None (Some 42))
   \<and> is_post (createSchemaFromHubFile id 1 ''schema.json'')
   \<and> is_put (updateSchemaFromHubFile id 1 ''schema.json'')"
proof -
  have h: "fetchAccessToken_options ''prod'' ''key'' None (Some 42) ''params''
             = Some (JObj [(''portalId'', JNum 42)])"
    by (simp add: fetchAccessToken_options_def truthy_num_def)
  note t = api_calls_fixed_endpoints
             [of id 1 "''schema.json''" id "''prod''" "''key''" None "Some 42"]
  have a: "is_post (createSchemaFromHubFile id 1 ''schema.json'')"
    using t by (elim conjE)
  have b: "is_put (updateSchemaFromHubFile id 1 ''schema.json'')"
    using t by (elim conjE)
  have c: "is_post (fetchAccessToken id ''prod'' ''key'' None (Some 42))"
    using t by (elim conjE)
  have d: "fetchAccessToken_options ''prod'' ''key'' None (Some 42) ''url''
             = Some (JStr ''localdevauth/v1/auth/refresh'')"
    using t by (elim conjE)
  show ?thesis
    by (intro conjI h d c a b)
qed


end
